theory Spec2Isabelle
  imports Complex_Main "HOL-Library.Multiset"
begin

section \<open>The dashboard: data model\<close>

text \<open>
  The dashboard (\<^verbatim>\<open>Baltimore_Dashboard_Updated.py\<close>) works on one pandas DataFrame read
  from a CSV file: one row per census tract, one numeric column per indicator.

  A table cell is a float that may be missing. It is modelled as \<open>real option\<close>:
  \<open>None\<close> is the missing-value marker (NaN), \<open>Some v\<close> a measurement. Arithmetic on
  measurements is exact (real numbers stand for the floats), except in the section on
  double arithmetic, which rounds as the program does.

  The identifier column \<^verbatim>\<open>tract\<close> is a non-negative integer code and lives in the field
  \<open>tract\<close> of a row; \<open>cols\<close> lists the indicator columns of the frame, and \<open>cells\<close> gives the
  cell of a row under a column name.
\<close>

type_synonym cell = "real option"

record tract_row =
  tract :: nat
  cells :: "string \<Rightarrow> cell"

record dataframe =
  cols :: "string list"
  rows :: "tract_row list"

text \<open>The exceptions the modelled code can raise.\<close>

datatype error = KeyError | IndexError | ZeroDivisionError | StreamlitAPIException

definition bind_r :: "error + 'a \<Rightarrow> ('a \<Rightarrow> error + 'b) \<Rightarrow> error + 'b" where
  "bind_r m f = (case m of Inl e \<Rightarrow> Inl e | Inr a \<Rightarrow> f a)"

text \<open>\<^verbatim>\<open>df[key]\<close>: the column as a sequence of cells in row order; KeyError for an unknown
  column.\<close>

definition getcol :: "dataframe \<Rightarrow> string \<Rightarrow> error + cell list" where
  "getcol df key =
     (if key \<in> set (cols df) then Inr (map (\<lambda>r. cells r key) (rows df)) else Inl KeyError)"

text \<open>\<^verbatim>\<open>tract_data[key]\<close> for a row \<^verbatim>\<open>tract_data\<close> of the frame, whose index is the
  frame's columns.\<close>

definition getitem :: "dataframe \<Rightarrow> tract_row \<Rightarrow> string \<Rightarrow> error + cell" where
  "getitem df tract_data key =
     (if key \<in> set (cols df) then Inr (cells tract_data key) else Inl KeyError)"

subsection \<open>Series reductions\<close>

text \<open>
  The reductions of a pandas Series that the dashboard calls. All of them skip missing
  values (\<^verbatim>\<open>skipna=True\<close> is the default) and give NaN when nothing is left; the standard
  deviation is the sample one (\<^verbatim>\<open>ddof=1\<close>), NaN for fewer than two values.

  \<open>s_mean\<close> and \<open>s_std\<close> are the exact values of the sums. The program adds doubles row
  by row and rounds after every addition, so what it computes is near these values and,
  unlike them, depends on the order of the rows; the section on double arithmetic below
  models that for the mean.
\<close>

definition dropna :: "cell list \<Rightarrow> real list" where
  "dropna xs = map the (filter (\<lambda>c. c \<noteq> None) xs)"

definition s_mean :: "cell list \<Rightarrow> cell" where
  "s_mean xs = (let v = dropna xs in
     if v = [] then None else Some (sum_list v / real (length v)))"

definition s_median :: "cell list \<Rightarrow> cell" where
  "s_median xs = (let v = sort (dropna xs); n = length v in
     if n = 0 then None
     else if odd n then Some (v ! (n div 2))
     else Some ((v ! (n div 2 - 1) + v ! (n div 2)) / 2))"

definition s_min :: "cell list \<Rightarrow> cell" where
  "s_min xs = (case dropna xs of [] \<Rightarrow> None | v # vs \<Rightarrow> Some (fold min vs v))"

definition s_max :: "cell list \<Rightarrow> cell" where
  "s_max xs = (case dropna xs of [] \<Rightarrow> None | v # vs \<Rightarrow> Some (fold max vs v))"

definition s_std :: "cell list \<Rightarrow> cell" where
  "s_std xs = (let v = dropna xs; n = length v in
     if n < 2 then None
     else let m = sum_list v / real n in
       Some (sqrt (sum_list (map (\<lambda>x. (x - m)\<^sup>2) v) / real (n - 1))))"

subsection \<open>Float arithmetic on cells\<close>

text \<open>
  NaN propagates through arithmetic. Division is modelled as Python's float division,
  which raises ZeroDivisionError on a zero divisor. \<^verbatim>\<open>x != 0\<close> is true for NaN.
\<close>

definition cell_sub :: "cell \<Rightarrow> cell \<Rightarrow> cell" where
  "cell_sub a b = (case (a, b) of (Some x, Some y) \<Rightarrow> Some (x - y) | _ \<Rightarrow> None)"

definition cell_mul :: "cell \<Rightarrow> cell \<Rightarrow> cell" where
  "cell_mul a b = (case (a, b) of (Some x, Some y) \<Rightarrow> Some (x * y) | _ \<Rightarrow> None)"

definition cell_div :: "cell \<Rightarrow> cell \<Rightarrow> error + cell" where
  "cell_div a b =
     (if b = Some 0 then Inl ZeroDivisionError
      else Inr (case (a, b) of (Some x, Some y) \<Rightarrow> Some (x / y) | _ \<Rightarrow> None))"

definition cell_ne0 :: "cell \<Rightarrow> bool" where
  "cell_ne0 c = (c \<noteq> Some 0)"

text \<open>\<^verbatim>\<open>df[key].mean()\<close> and \<^verbatim>\<open>df[key].median()\<close>, the city aggregates over all rows.\<close>

definition city_mean :: "dataframe \<Rightarrow> string \<Rightarrow> error + cell" where
  "city_mean df key = bind_r (getcol df key) (\<lambda>col. Inr (s_mean col))"

definition city_median :: "dataframe \<Rightarrow> string \<Rightarrow> error + cell" where
  "city_median df key = bind_r (getcol df key) (\<lambda>col. Inr (s_median col))"

subsection \<open>Strings\<close>

text \<open>\<^verbatim>\<open>str.replace\<close> of one character, \<^verbatim>\<open>str.title\<close>, \<^verbatim>\<open>str\<close> of a non-negative integer and
  \<^verbatim>\<open>str.zfill\<close>, on ASCII text.\<close>

definition ascii_lowercase :: string where
  "ascii_lowercase = ''abcdefghijklmnopqrstuvwxyz''"

definition ascii_uppercase :: string where
  "ascii_uppercase = ''ABCDEFGHIJKLMNOPQRSTUVWXYZ''"

definition is_lower :: "char \<Rightarrow> bool" where
  "is_lower c = (c \<in> set ascii_lowercase)"

definition is_upper :: "char \<Rightarrow> bool" where
  "is_upper c = (c \<in> set ascii_uppercase)"

definition to_upper :: "char \<Rightarrow> char" where
  "to_upper c = (case map_of (zip ascii_lowercase ascii_uppercase) c of Some u \<Rightarrow> u | None \<Rightarrow> c)"

definition to_lower :: "char \<Rightarrow> char" where
  "to_lower c = (case map_of (zip ascii_uppercase ascii_lowercase) c of Some l \<Rightarrow> l | None \<Rightarrow> c)"

definition replace_char :: "char \<Rightarrow> char \<Rightarrow> string \<Rightarrow> string" where
  "replace_char a b s = map (\<lambda>c. if c = a then b else c) s"

fun title_from :: "bool \<Rightarrow> string \<Rightarrow> string" where
  "title_from previous_is_cased [] = []"
| "title_from previous_is_cased (c # cs) =
     (if is_lower c \<or> is_upper c
      then (if previous_is_cased then to_lower c else to_upper c) # title_from True cs
      else c # title_from False cs)"

definition title :: "string \<Rightarrow> string" where
  "title s = title_from False s"

definition digit_char :: "nat \<Rightarrow> char" where
  "digit_char d = ''0123456789'' ! d"

function str_nat :: "nat \<Rightarrow> string" where
  "str_nat n = (if n < 10 then [digit_char n] else str_nat (n div 10) @ [digit_char (n mod 10)])"
  by pat_completeness auto
termination
  by (relation "measure id") auto

declare str_nat.simps [simp del]

definition zfill :: "nat \<Rightarrow> string \<Rightarrow> string" where
  "zfill width s = replicate (width - length s) (CHR ''0'') @ s"

section \<open>Double arithmetic\<close>

text \<open>
  A float of the program is an IEEE double. \<open>double x\<close> is the double nearest to the real
  \<open>x\<close>, ties to the even significand, for a magnitude in the normal range (overflow and
  subnormal numbers are not modelled): \<open>x\<close> is scaled into the interval from 1 to 2, rounded
  to 52 binary places and scaled back. It is what reading a decimal from the file gives, and
  what every arithmetic operation gives from its exact result.
\<close>

definition round_half_even :: "real \<Rightarrow> int" where
  "round_half_even y = (let f = \<lfloor>y\<rfloor>; r = y - of_int f in
     if r < 1 / 2 then f else if 1 / 2 < r then f + 1 else if even f then f else f + 1)"

text \<open>How often \<open>x \<ge> 1\<close> is halved, and \<open>0 < x < 1\<close> doubled, to reach the interval.\<close>

function halvings :: "real \<Rightarrow> nat" where
  "halvings x = (if x < 2 then 0 else Suc (halvings (x / 2)))"
  by pat_completeness auto
termination
  by (relation "measure (\<lambda>x. nat \<lfloor>x\<rfloor>)") (auto, linarith)

declare halvings.simps [simp del]

function doublings :: "real \<Rightarrow> nat" where
  "doublings x = (if x \<le> 0 \<or> 1 \<le> x then 0 else Suc (doublings (2 * x)))"
  by pat_completeness auto
termination
proof (relation "measure (\<lambda>x. nat \<lfloor>1 / x\<rfloor>)")
  show "wf (measure (\<lambda>x::real. nat \<lfloor>1 / x\<rfloor>))"
    by simp
next
  fix x :: real
  assume "\<not> (x \<le> 0 \<or> 1 \<le> x)"
  then have x: "0 < x" "x < 1"
    by auto
  define y where "y = 1 / x"
  have y: "1 < y"
    using x by (simp add: y_def)
  have lo: "1 \<le> \<lfloor>y\<rfloor>"
    using y by simp
  have up: "y < of_int \<lfloor>y\<rfloor> + 1"
    by linarith
  have "y / 2 < of_int \<lfloor>y\<rfloor>"
    using y lo up by linarith
  then have lt: "\<lfloor>y / 2\<rfloor> < \<lfloor>y\<rfloor>"
    by (simp add: floor_less_iff)
  have eq: "1 / (2 * x) = y / 2"
    by (simp add: y_def)
  have "nat \<lfloor>1 / (2 * x)\<rfloor> < nat \<lfloor>y\<rfloor>"
    unfolding eq using lt lo by linarith
  then show "(2 * x, x) \<in> measure (\<lambda>x. nat \<lfloor>1 / x\<rfloor>)"
    by (simp only: in_measure y_def)
qed

declare doublings.simps [simp del]

definition double :: "real \<Rightarrow> real" where
  "double x =
     (if x = 0 then 0
      else let a = \<bar>x\<bar> in
        if 1 \<le> a
        then sgn x * (of_int (round_half_even (a / 2 ^ halvings a * 2 ^ 52)) / 2 ^ 52)
               * 2 ^ halvings a
        else sgn x * (of_int (round_half_even (a * 2 ^ doublings a * 2 ^ 52)) / 2 ^ 52)
               / 2 ^ doublings a)"

text \<open>
  \<^verbatim>\<open>Series.mean()\<close> in doubles: the non-missing values are added to 0.0 one after the
  other in row order, and the sum is divided by their number. This is the loop that runs
  on a column of fewer than 8 rows. From 8 rows on numpy adds in blocks; the model does not
  follow it there and gives \<open>Not_Modelled\<close>.
\<close>

datatype double_result = Not_Modelled | Double cell

definition s_mean_double :: "cell list \<Rightarrow> double_result" where
  "s_mean_double xs =
     (if length xs < 8 then
        (let v = map double (dropna xs) in
         if v = [] then Double None
         else Double (Some (double (foldl (\<lambda>res x. double (res + x)) 0 v / real (length v)))))
      else Not_Modelled)"

definition city_mean_double :: "dataframe \<Rightarrow> string \<Rightarrow> error + double_result" where
  "city_mean_double df key = bind_r (getcol df key) (\<lambda>col. Inr (s_mean_double col))"

section \<open>Loading the data\<close>

text \<open>
  What \<^verbatim>\<open>pd.read_csv\<close> finds at the fixed path: no file, a file it cannot parse, or a
  table (a header and any number of rows, zero included) that it returns as a frame.
\<close>

datatype source_file = Absent | Malformed | Table dataframe

datatype read_error = FileNotFoundError | ParserError

definition read_csv :: "source_file \<Rightarrow> read_error + dataframe" where
  "read_csv src =
     (case src of Absent \<Rightarrow> Inl FileNotFoundError
      | Malformed \<Rightarrow> Inl ParserError
      | Table df \<Rightarrow> Inr df)"

text \<open>\<^verbatim>\<open>load_data\<close>: the frame, or \<open>None\<close> after an error banner when the read raised
  anything (the \<^verbatim>\<open>except:\<close> is bare). The second component is the banners shown, as
  ASCII text.\<close>

definition load_data :: "source_file \<Rightarrow> dataframe option \<times> string list" where
  "load_data src =
     (case read_csv src of
        Inr df \<Rightarrow> (Some df, [])
      | Inl e \<Rightarrow> (None, [''Data file not found. Please ensure baltimore_integrated_expanded_2022.csv is in data/integrated/'']))"

section \<open>City overview\<close>

record overview =
  census_tracts :: nat
  avg_poverty :: cell
  avg_unemployment :: cell
  median_income :: cell
  stat_min :: cell
  stat_median :: cell
  stat_max :: cell
  stat_std :: cell

text \<open>The statistics block: \<^verbatim>\<open>values = df[indicator].dropna()\<close>, then its minimum, median,
  maximum and standard deviation.\<close>

definition indicator_statistics :: "dataframe \<Rightarrow> string \<Rightarrow> error + cell \<times> cell \<times> cell \<times> cell" where
  "indicator_statistics df indicator =
     bind_r (getcol df indicator) (\<lambda>col.
       let values = map Some (dropna col)
       in Inr (s_min values, s_median values, s_max values, s_std values))"

definition show_city_overview :: "dataframe \<Rightarrow> string \<Rightarrow> error + overview" where
  "show_city_overview df indicator =
     bind_r (city_mean df ''poverty_rate'') (\<lambda>avg_poverty.
     bind_r (city_mean df ''unemployment_rate'') (\<lambda>avg_unemployment.
     bind_r (city_median df ''median_household_income_econ'') (\<lambda>median_income.
     bind_r (indicator_statistics df indicator) (\<lambda>(mn, med, mx, sd).
       Inr \<lparr>census_tracts = length (rows df),
            avg_poverty = avg_poverty, avg_unemployment = avg_unemployment,
            median_income = median_income,
            stat_min = mn, stat_median = med, stat_max = mx, stat_std = sd\<rparr>))))"

section \<open>Neighborhood explorer\<close>

definition tract_display :: "tract_row \<Rightarrow> string" where
  "tract_display r = ''Tract '' @ zfill 6 (str_nat (tract r))"

text \<open>\<^verbatim>\<open>df[df['tract_display'] == selected_tract].iloc[0]\<close>: the first matching row,
  IndexError when there is none.\<close>

definition select_tract :: "dataframe \<Rightarrow> string \<Rightarrow> error + tract_row" where
  "select_tract df selected_tract =
     (case filter (\<lambda>r. tract_display r = selected_tract) (rows df) of
        [] \<Rightarrow> Inl IndexError
      | r # _ \<Rightarrow> Inr r)"

text \<open>A key-indicator card: the tract's value and \<^verbatim>\<open>delta = value - city_avg\<close>, where the
  caller says which aggregate the city value is.\<close>

definition key_indicator ::
  "dataframe \<Rightarrow> tract_row \<Rightarrow> string \<Rightarrow> (dataframe \<Rightarrow> string \<Rightarrow> error + cell) \<Rightarrow> error + cell \<times> cell" where
  "key_indicator df tract_data key aggregate =
     bind_r (getitem df tract_data key) (\<lambda>value.
     bind_r (aggregate df key) (\<lambda>city_avg.
       let delta = cell_sub value city_avg in Inr (value, delta)))"

text \<open>The guard \<^verbatim>\<open>key in tract_data.index and pd.notna(tract_data[key])\<close>.\<close>

definition has_value :: "dataframe \<Rightarrow> tract_row \<Rightarrow> string \<Rightarrow> bool" where
  "has_value df tract_data key = (key \<in> set (cols df) \<and> cells tract_data key \<noteq> None)"

text \<open>\<^verbatim>\<open>((value - city_avg) / city_avg * 100) if city_avg != 0 else 0\<close>\<close>

definition diff_pct :: "cell \<Rightarrow> cell \<Rightarrow> error + cell" where
  "diff_pct value city_avg =
     (if cell_ne0 city_avg
      then bind_r (cell_div (cell_sub value city_avg) city_avg) (\<lambda>q. Inr (cell_mul q (Some 100)))
      else Inr (Some 0))"

text \<open>\<^verbatim>\<open>(tract_val / city_val * 100) if city_val != 0 else 100\<close>\<close>

definition normalized :: "cell \<Rightarrow> cell \<Rightarrow> error + cell" where
  "normalized tract_val city_val =
     (if cell_ne0 city_val
      then bind_r (cell_div tract_val city_val) (\<lambda>q. Inr (cell_mul q (Some 100)))
      else Inr (Some 100))"

text \<open>\<^verbatim>\<open>min(value / 100, 1.0) if unit == '%' else 0.5\<close>, the argument of the progress bar.\<close>

definition progress :: "cell \<Rightarrow> string \<Rightarrow> cell" where
  "progress value unit =
     (if unit = ''%'' then (case value of None \<Rightarrow> None | Some v \<Rightarrow> Some (min (v / 100) 1))
      else Some 0.5)"

text \<open>\<^verbatim>\<open>st.progress(value)\<close> draws the bar for a float between 0.0 and 1.0 and raises
  StreamlitAPIException for any other float, NaN included.\<close>

definition st_progress :: "cell \<Rightarrow> error + unit" where
  "st_progress value =
     (case value of
        None \<Rightarrow> Inl StreamlitAPIException
      | Some p \<Rightarrow> if 0 \<le> p \<and> p \<le> 1 then Inr () else Inl StreamlitAPIException)"

text \<open>A line of the detail columns: label, value, progress, percent difference to the city
  average.\<close>

type_synonym detail = "string \<times> cell \<times> cell \<times> cell"

text \<open>The \<^verbatim>\<open>for key, label, unit in metrics\<close> loop, the same for both detail columns. A
  line is written, then its progress bar is drawn, which may raise, then the caption.\<close>

fun detail_metrics ::
  "dataframe \<Rightarrow> tract_row \<Rightarrow> (string \<times> string \<times> string) list \<Rightarrow> error + detail list" where
  "detail_metrics df tract_data [] = Inr []"
| "detail_metrics df tract_data ((key, label, unit) # metrics) =
     (if has_value df tract_data key then
        (let value = cells tract_data key in
         bind_r (city_mean df key) (\<lambda>city_avg.
         bind_r (diff_pct value city_avg) (\<lambda>d.
         bind_r (st_progress (progress value unit)) (\<lambda>_.
         bind_r (detail_metrics df tract_data metrics) (\<lambda>rest.
           Inr ((label, value, progress value unit, d) # rest))))))
      else detail_metrics df tract_data metrics)"

definition housing_economic_metrics :: "(string \<times> string \<times> string) list" where
  "housing_economic_metrics =
     [(''housing_cost_burden_rate'', ''Housing Cost Burden'', ''%''),
      (''snap_participation_rate'', ''SNAP Participation'', ''%''),
      (''public_assistance_rate'', ''Public Assistance'', ''%''),
      (''home_ownership_rate'', ''Home Ownership'', ''%''),
      (''vacancy_rate'', ''Vacancy Rate'', ''%'')]"

definition health_education_metrics :: "(string \<times> string \<times> string) list" where
  "health_education_metrics =
     [(''uninsured_rate'', ''Uninsured Rate'', ''%''),
      (''disability_rate'', ''Disability Rate'', ''%''),
      (''college_degree_rate'', ''College Degree Rate'', ''%''),
      (''long_commute_rate'', ''Long Commute Rate (60+ min)'', ''%'')]"

definition comparison_indicators :: "string list" where
  "comparison_indicators =
     [''poverty_rate'', ''unemployment_rate'', ''snap_participation_rate'',
      ''housing_cost_burden_rate'', ''uninsured_rate'', ''college_degree_rate'']"

text \<open>\<^verbatim>\<open>ind.replace('_', ' ').title()\<close>\<close>

definition radar_label :: "string \<Rightarrow> string" where
  "radar_label ind = title (replace_char (CHR ''_'') (CHR '' '') ind)"

text \<open>
  The \<^verbatim>\<open>for ind in comparison_indicators\<close> loop of the radar chart. It appends to the three
  lists \<^verbatim>\<open>tract_values\<close>, \<^verbatim>\<open>city_values\<close> and \<^verbatim>\<open>labels\<close>, which are the accumulator.
\<close>

fun radar_loop ::
  "dataframe \<Rightarrow> tract_row \<Rightarrow> string list \<Rightarrow> cell list \<times> real list \<times> string list
     \<Rightarrow> error + cell list \<times> real list \<times> string list" where
  "radar_loop df tract_data [] acc = Inr acc"
| "radar_loop df tract_data (ind # inds) (tract_values, city_values, labels) =
     (if has_value df tract_data ind then
        (let tract_val = cells tract_data ind in
         bind_r (city_mean df ind) (\<lambda>city_val.
         bind_r (normalized tract_val city_val) (\<lambda>n.
           radar_loop df tract_data inds
             (tract_values @ [n], city_values @ [100], labels @ [radar_label ind]))))
      else radar_loop df tract_data inds (tract_values, city_values, labels))"

record explorer_view =
  key_poverty :: "cell \<times> cell"
  key_unemployment :: "cell \<times> cell"
  key_income :: "cell \<times> cell"
  key_gini :: "cell \<times> cell"
  housing_economic :: "detail list"
  health_education :: "detail list"
  radar_tract_values :: "cell list"
  radar_city_values :: "real list"
  radar_labels :: "string list"

definition show_neighborhood_explorer :: "dataframe \<Rightarrow> string \<Rightarrow> error + explorer_view" where
  "show_neighborhood_explorer df selected_tract =
     bind_r (select_tract df selected_tract) (\<lambda>tract_data.
     bind_r (key_indicator df tract_data ''poverty_rate'' city_mean) (\<lambda>poverty.
     bind_r (key_indicator df tract_data ''unemployment_rate'' city_mean) (\<lambda>unemployment.
     bind_r (key_indicator df tract_data ''median_household_income_econ'' city_median) (\<lambda>income.
     bind_r (key_indicator df tract_data ''gini_index'' city_mean) (\<lambda>gini.
     bind_r (detail_metrics df tract_data housing_economic_metrics) (\<lambda>housing.
     bind_r (detail_metrics df tract_data health_education_metrics) (\<lambda>health.
     bind_r (radar_loop df tract_data comparison_indicators ([], [], []))
       (\<lambda>(tract_values, city_values, labels).
         Inr \<lparr>key_poverty = poverty, key_unemployment = unemployment,
              key_income = income, key_gini = gini,
              housing_economic = housing, health_education = health,
              radar_tract_values = tract_values, radar_city_values = city_values,
              radar_labels = labels\<rparr>))))))))"

section \<open>Indicator analysis: correlation and its strength\<close>

datatype strength = Strong | Moderate | Weak

text \<open>
  The \<^verbatim>\<open>if abs(corr) > 0.7 / elif abs(corr) > 0.4 / else\<close> chain of
  \<^verbatim>\<open>show_indicator_analysis\<close>. Every comparison with NaN is false, so a NaN coefficient
  falls through to the last branch.
\<close>

definition cell_abs_gt :: "cell \<Rightarrow> real \<Rightarrow> bool" where
  "cell_abs_gt c t = (case c of None \<Rightarrow> False | Some r \<Rightarrow> \<bar>r\<bar> > t)"

definition classify :: "cell \<Rightarrow> strength" where
  "classify corr =
     (if cell_abs_gt corr 0.7 then Strong
      else if cell_abs_gt corr 0.4 then Moderate
      else Weak)"

text \<open>
  \<^verbatim>\<open>df[[x_var, y_var]].corr().iloc[0, 1]\<close>: the Pearson coefficient of the two columns over
  the rows where both cells are present. With the default \<^verbatim>\<open>min_periods=1\<close> pandas gives
  NaN when no such row exists, and NaN when the divisor, the square root of the product of
  the two sums of squared deviations, is zero; it raises nothing.
\<close>

definition paired :: "cell list \<Rightarrow> cell list \<Rightarrow> (real \<times> real) list" where
  "paired xs ys =
     map (\<lambda>(a, b). (the a, the b)) (filter (\<lambda>(a, b). a \<noteq> None \<and> b \<noteq> None) (zip xs ys))"

definition pearson :: "(real \<times> real) list \<Rightarrow> cell" where
  "pearson ps = (let nobs = length ps in
     if nobs < 1 then None
     else
       let meanx = sum_list (map fst ps) / real nobs;
           meany = sum_list (map snd ps) / real nobs;
           ssqdm_x = sum_list (map (\<lambda>(x, y). (x - meanx)\<^sup>2) ps);
           ssqdm_y = sum_list (map (\<lambda>(x, y). (y - meany)\<^sup>2) ps);
           covxy = sum_list (map (\<lambda>(x, y). (x - meanx) * (y - meany)) ps);
           divisor = sqrt (ssqdm_x * ssqdm_y)
       in if divisor \<noteq> 0 then Some (covxy / divisor) else None)"

definition show_indicator_analysis :: "dataframe \<Rightarrow> string \<Rightarrow> string \<Rightarrow> error + cell \<times> strength" where
  "show_indicator_analysis df x_var y_var =
     bind_r (getcol df x_var) (\<lambda>xs.
     bind_r (getcol df y_var) (\<lambda>ys.
       let corr = pearson (paired xs ys) in Inr (corr, classify corr)))"

section \<open>The dashboard's main\<close>

datatype view_mode =
    City_Overview string
  | Neighborhood_Explorer string
  | Indicator_Analysis string string
  | About

datatype page =
    No_Page
  | Overview_Page overview
  | Explorer_Page explorer_view
  | Analysis_Page cell strength
  | About_Page

text \<open>\<^verbatim>\<open>main\<close>: load, return at once when there is no frame, otherwise show the selected
  view with the user's selections. An exception of a view is not caught.\<close>

definition dashboard_main :: "source_file \<Rightarrow> view_mode \<Rightarrow> string list \<times> (error + page)" where
  "dashboard_main src view =
     (case load_data src of
        (None, banners) \<Rightarrow> (banners, Inr No_Page)
      | (Some df, banners) \<Rightarrow>
          (banners,
           case view of
             City_Overview indicator \<Rightarrow>
               bind_r (show_city_overview df indicator) (\<lambda>v. Inr (Overview_Page v))
           | Neighborhood_Explorer selected_tract \<Rightarrow>
               bind_r (show_neighborhood_explorer df selected_tract) (\<lambda>v. Inr (Explorer_Page v))
           | Indicator_Analysis x_var y_var \<Rightarrow>
               bind_r (show_indicator_analysis df x_var y_var) (\<lambda>(corr, s). Inr (Analysis_Page corr s))
           | About \<Rightarrow> Inr About_Page))"

section \<open>The pipeline driver\<close>

text \<open>
  \<^verbatim>\<open>full_pipeline.py\<close> runs external scripts one after the other and checks their output
  files. What the outside world does is a parameter: how a script ends when it is run,
  which paths exist, and what reading the integrated table gives.
\<close>

datatype proc_result =
    Exited int  \<comment> \<open>\<^verbatim>\<open>subprocess.run\<close> returned, with this return code\<close>
  | TimedOut    \<comment> \<open>\<^verbatim>\<open>subprocess.TimeoutExpired\<close> after the 300 seconds\<close>
  | Raised      \<comment> \<open>any other exception of \<^verbatim>\<open>subprocess.run\<close>\<close>

record world =
  run_outcome :: "string \<Rightarrow> proc_result"
  exists_at_start :: "string \<Rightarrow> bool"
  exists_at_validation :: "string \<Rightarrow> bool"
  integrated_rows :: "nat option"
    \<comment> \<open>\<^verbatim>\<open>len(pd.read_csv(integrated_file))\<close>; \<open>None\<close> when the import or the read raises\<close>

text \<open>What a run does, in order: the scripts it starts, the validation it reports, the
  summary it prints.\<close>

datatype event =
    Prerequisites bool
  | Spawn string
  | Validation nat nat
  | Summary bool

record args =
  skip_download :: bool
  validate_only :: bool

definition run_script :: "world \<Rightarrow> string \<Rightarrow> string \<Rightarrow> event list \<Rightarrow> bool \<times> event list" where
  "run_script w script_name description tr =
     (case run_outcome w script_name of
        Exited returncode \<Rightarrow> (if returncode = 0 then True else False)
      | TimedOut \<Rightarrow> False
      | Raised \<Rightarrow> False,
      tr @ [Spawn script_name])"

definition required_scripts :: "string list" where
  "required_scripts =
     [''expand_health_indicators.py'', ''fetch_census_economic_data.py'',
      ''integrate_economic_data.py'', ''Baltimore_MetricsWithMap.py'']"

fun check_scripts :: "world \<Rightarrow> string list \<Rightarrow> bool \<Rightarrow> bool" where
  "check_scripts w [] all_good = all_good"
| "check_scripts w (script # scripts) all_good =
     check_scripts w scripts (if exists_at_start w script then all_good else False)"

definition check_prerequisites :: "world \<Rightarrow> bool" where
  "check_prerequisites w =
     (let all_good = True;
          all_good = (if \<not> exists_at_start w ''.env'' then False else all_good)
      in check_scripts w required_scripts all_good)"

definition extraction_steps :: "(string \<times> string) list" where
  "extraction_steps =
     [(''expand_health_indicators.py'', ''Expanding health indicators (4 -> 35)''),
      (''fetch_census_economic_data.py'', ''Fetching economic indicators (24 metrics)'')]"

text \<open>The \<^verbatim>\<open>for script, description in steps\<close> loop of \<^verbatim>\<open>run_data_extraction\<close>, which
  returns False at the first step that fails.\<close>

fun run_steps :: "world \<Rightarrow> (string \<times> string) list \<Rightarrow> event list \<Rightarrow> bool \<times> event list" where
  "run_steps w [] tr = (True, tr)"
| "run_steps w ((script, description) # steps) tr =
     (case run_script w script description tr of
        (ok, tr') \<Rightarrow> if \<not> ok then (False, tr') else run_steps w steps tr')"

definition run_data_extraction :: "world \<Rightarrow> event list \<Rightarrow> bool \<times> event list" where
  "run_data_extraction w tr = run_steps w extraction_steps tr"

definition run_data_integration :: "world \<Rightarrow> event list \<Rightarrow> bool \<times> event list" where
  "run_data_integration w tr =
     run_script w ''integrate_economic_data.py'' ''Integrating health + economic data'' tr"

definition run_dashboard_generation :: "world \<Rightarrow> event list \<Rightarrow> bool \<times> event list" where
  "run_dashboard_generation w tr =
     run_script w ''Baltimore_MetricsWithMap.py'' ''Generating health dashboard'' tr"

fun check_file :: "world \<Rightarrow> string \<Rightarrow> nat \<times> nat \<Rightarrow> nat \<times> nat" where
  "check_file w path (checks_passed, checks_total) =
     (if exists_at_validation w path then (checks_passed + 1, checks_total + 1)
      else (checks_passed, checks_total + 1))"

fun check_completeness :: "world \<Rightarrow> nat \<times> nat \<Rightarrow> nat \<times> nat" where
  "check_completeness w (checks_passed, checks_total) =
     (case integrated_rows w of
        Some n \<Rightarrow> (if n = 199 then (checks_passed + 1, checks_total + 1)
                   else (checks_passed, checks_total + 1))
      | None \<Rightarrow> (checks_passed, checks_total + 1))"

definition run_validation :: "world \<Rightarrow> event list \<Rightarrow> bool \<times> event list" where
  "run_validation w tr =
     (let c = (0, 0);
          c = check_file w ''data/health_expanded/baltimore_health_35indicators_2022.csv'' c;
          c = check_file w ''data/economic/baltimore_economic_data_2022.csv'' c;
          c = check_file w ''data/integrated/baltimore_integrated_health_economic_2022.csv'' c;
          c = check_file w ''output/dashboard_multi_year.html'' c;
          c = check_completeness w c
      in case c of (checks_passed, checks_total) \<Rightarrow>
           (checks_passed = checks_total, tr @ [Validation checks_passed checks_total]))"

text \<open>
  \<^verbatim>\<open>main\<close> of the pipeline, for the parsed flags: the exit status and what was done.
  \<^verbatim>\<open>success and not f()\<close> calls \<^verbatim>\<open>f\<close> only when \<^verbatim>\<open>success\<close> holds. In the full run
  the value of \<^verbatim>\<open>run_validation()\<close> is dropped; with \<^verbatim>\<open>--validate-only\<close> it is
  assigned to \<^verbatim>\<open>success\<close>.
\<close>

definition pipeline_main :: "world \<Rightarrow> args \<Rightarrow> int \<times> event list" where
  "pipeline_main w a =
     (let success = True;
          tr = [Prerequisites (check_prerequisites w)];
          (success, tr) =
            (if validate_only a then run_validation w tr
             else
               let (success, tr) =
                     (if \<not> skip_download a then
                        (case run_data_extraction w tr of
                           (ok, tr') \<Rightarrow> (if \<not> ok then False else success, tr'))
                      else (success, tr));
                   (success, tr) =
                     (if success then
                        (case run_data_integration w tr of
                           (ok, tr') \<Rightarrow> (if \<not> ok then False else success, tr'))
                      else (success, tr));
                   (success, tr) =
                     (if success then
                        (case run_dashboard_generation w tr of
                           (ok, tr') \<Rightarrow> (if \<not> ok then False else success, tr'))
                      else (success, tr));
                   tr = (if success then snd (run_validation w tr) else tr)
               in (success, tr))
      in (if success then 0 else 1, tr @ [Summary success]))"

section \<open>Concrete inputs\<close>

text \<open>A row from its tract code and the cells that are present.\<close>

definition tract_of :: "nat \<Rightarrow> (string \<times> real) list \<Rightarrow> tract_row" where
  "tract_of code kvs = \<lparr>tract = code, cells = map_of kvs\<rparr>"

text \<open>Three tracts with poverty rates 10, 20 and 30.\<close>

definition tract_2603 :: tract_row where
  "tract_2603 = tract_of 2603 [(''poverty_rate'', 30), (''unemployment_rate'', 12),
                               (''median_household_income_econ'', 90000), (''gini_index'', 0.5)]"

definition three_tracts :: dataframe where
  "three_tracts =
     \<lparr>cols = [''poverty_rate'', ''unemployment_rate'', ''median_household_income_econ'',
              ''gini_index''],
      rows = [tract_of 101 [(''poverty_rate'', 10), (''unemployment_rate'', 4),
                            (''median_household_income_econ'', 40000), (''gini_index'', 0.25)],
              tract_of 102 [(''poverty_rate'', 20), (''unemployment_rate'', 8),
                            (''median_household_income_econ'', 50000), (''gini_index'', 0.75)],
              tract_2603]\<rparr>"

text \<open>Three tracts with the key indicators and three of the detail indicators; no tract
  has a vacancy or an uninsured resident.\<close>

definition tract_101 :: tract_row where
  "tract_101 = tract_of 101 [(''poverty_rate'', 30), (''unemployment_rate'', 14),
                             (''median_household_income_econ'', 90000), (''gini_index'', 0.625),
                             (''snap_participation_rate'', 75), (''vacancy_rate'', 0),
                             (''uninsured_rate'', 0)]"

definition sample :: dataframe where
  "sample =
     \<lparr>cols = [''poverty_rate'', ''unemployment_rate'', ''median_household_income_econ'',
              ''gini_index'', ''snap_participation_rate'', ''vacancy_rate'', ''uninsured_rate''],
      rows = [tract_101,
              tract_of 102 [(''poverty_rate'', 10), (''unemployment_rate'', 4),
                            (''median_household_income_econ'', 40000), (''gini_index'', 0.25),
                            (''snap_participation_rate'', 25), (''vacancy_rate'', 0),
                            (''uninsured_rate'', 0)],
              tract_of 103 [(''poverty_rate'', 5), (''unemployment_rate'', 6),
                            (''median_household_income_econ'', 50000), (''gini_index'', 0.25),
                            (''snap_participation_rate'', 50), (''vacancy_rate'', 0),
                            (''uninsured_rate'', 0)]]\<rparr>"

text \<open>Four tracts, and the same four in another order.\<close>

definition four_tracts :: dataframe where
  "four_tracts =
     \<lparr>cols = [''poverty_rate''],
      rows = [tract_of 101 [(''poverty_rate'', 51.9)], tract_of 102 [(''poverty_rate'', 84.9)],
              tract_of 103 [(''poverty_rate'', 93.2)], tract_of 104 [(''poverty_rate'', 68.6)]]\<rparr>"

definition four_tracts_permuted :: dataframe where
  "four_tracts_permuted =
     \<lparr>cols = [''poverty_rate''],
      rows = [tract_of 102 [(''poverty_rate'', 84.9)], tract_of 104 [(''poverty_rate'', 68.6)],
              tract_of 103 [(''poverty_rate'', 93.2)], tract_of 101 [(''poverty_rate'', 51.9)]]\<rparr>"

text \<open>Two tracts with gaps: the first has no unemployment rate, the second no uninsured
  rate.\<close>

definition gap_a :: tract_row where
  "gap_a = tract_of 401 [(''poverty_rate'', 10), (''uninsured_rate'', 5)]"

definition gap_b :: tract_row where
  "gap_b = tract_of 402 [(''poverty_rate'', 30), (''unemployment_rate'', 6)]"

definition with_gaps :: dataframe where
  "with_gaps =
     \<lparr>cols = [''poverty_rate'', ''unemployment_rate'', ''uninsured_rate''],
      rows = [gap_a, gap_b]\<rparr>"

text \<open>A single tract.\<close>

definition one_tract :: dataframe where
  "one_tract =
     \<lparr>cols = [''poverty_rate'', ''uninsured_rate''],
      rows = [tract_of 101 [(''poverty_rate'', 10), (''uninsured_rate'', 5)]]\<rparr>"

text \<open>A file with the header line and no row.\<close>

definition header_only :: dataframe where
  "header_only = \<lparr>cols = [''poverty_rate'', ''unemployment_rate''], rows = []\<rparr>"

text \<open>A run in which the second extraction script exits with status 2.\<close>

definition fetch_fails :: world where
  "fetch_fails =
     \<lparr>run_outcome = (\<lambda>s. if s = ''fetch_census_economic_data.py'' then Exited 2 else Exited 0),
      exists_at_start = (\<lambda>_. True),
      exists_at_validation = (\<lambda>_. True),
      integrated_rows = Some 199\<rparr>"

text \<open>A run in which every script exits with status 0, the three data files are there
  with 199 tracts, and the dashboard HTML file is not.\<close>

definition html_missing :: world where
  "html_missing =
     \<lparr>run_outcome = (\<lambda>_. Exited 0),
      exists_at_start = (\<lambda>_. True),
      exists_at_validation = (\<lambda>p. p \<noteq> ''output/dashboard_multi_year.html''),
      integrated_rows = Some 199\<rparr>"

section \<open>Properties\<close>

text \<open>
  C2. The strength classification of a coefficient \<open>r\<close>: Strong when \<open>\<bar>r\<bar> > 0.7\<close>, Moderate
  when \<open>0.4 < \<bar>r\<bar> \<le> 0.7\<close>, Weak when \<open>\<bar>r\<bar> \<le> 0.4\<close>; a coefficient of exactly 0.70 is
  Moderate and one of exactly 0.40 is Weak.
\<close>

theorem classify_tiers:
  "(\<bar>r\<bar> > 0.7 \<longrightarrow> classify (Some r) = Strong) \<and>
   (0.4 < \<bar>r\<bar> \<and> \<bar>r\<bar> \<le> 0.7 \<longrightarrow> classify (Some r) = Moderate) \<and>
   (\<bar>r\<bar> \<le> 0.4 \<longrightarrow> classify (Some r) = Weak) \<and>
   classify (Some 0.7) = Moderate \<and> classify (Some 0.4) = Weak"
  by (simp add: classify_def cell_abs_gt_def)

theorem classify_tiers_witness:
  "\<bar>0.9::real\<bar> > 0.7 \<and> classify (Some 0.9) = Strong \<and>
   0.4 < \<bar>-0.5::real\<bar> \<and> \<bar>-0.5::real\<bar> \<le> 0.7 \<and> classify (Some (-0.5)) = Moderate \<and>
   \<bar>0.1::real\<bar> \<le> 0.4 \<and> classify (Some 0.1) = Weak"
  using classify_tiers [of "0.9"] classify_tiers [of "-0.5"] classify_tiers [of "0.1"]
  by simp

subsection \<open>The loops of the neighborhood explorer\<close>

lemma city_mean_known:
  "key \<in> set (cols df) \<Longrightarrow> city_mean df key = Inr (s_mean (map (\<lambda>r. cells r key) (rows df)))"
  by (simp add: city_mean_def getcol_def bind_r_def)

lemma dropna_member: "Some v \<in> set xs \<Longrightarrow> v \<in> set (dropna xs)"
  by (force simp: dropna_def)

lemma s_mean_defined:
  assumes "tract_data \<in> set (rows df)" and "cells tract_data key \<noteq> None"
  shows "\<exists>c. s_mean (map (\<lambda>r. cells r key) (rows df)) = Some c"
proof -
  from assms obtain v where v: "cells tract_data key = Some v" by auto
  with assms(1) have "Some v \<in> set (map (\<lambda>r. cells r key) (rows df))" by force
  then have "dropna (map (\<lambda>r. cells r key) (rows df)) \<noteq> []"
    using dropna_member by fastforce
  then show ?thesis by (simp add: s_mean_def Let_def)
qed

lemma diff_pct_some:
  "diff_pct (Some v) (Some c) = Inr (Some (if c = 0 then 0 else (v - c) / c * 100))"
  by (simp add: diff_pct_def cell_ne0_def cell_div_def cell_sub_def cell_mul_def bind_r_def)

lemma normalized_some:
  "normalized (Some v) (Some c) = Inr (Some (if c = 0 then 100 else v / c * 100))"
  by (simp add: normalized_def cell_ne0_def cell_div_def cell_mul_def bind_r_def)

lemma normalized_returns: "\<exists>d. normalized value city_avg = Inr d"
  by (simp add: normalized_def cell_ne0_def cell_div_def bind_r_def)

lemma radar_loop_returns_acc:
  "\<exists>out. radar_loop df tract_data inds (tv, cv, ls) = Inr out"
proof (induction inds arbitrary: tv cv ls)
  case Nil
  show ?case by simp
next
  case (Cons ind inds)
  show ?case
  proof (cases "has_value df tract_data ind")
    case True
    then have k: "ind \<in> set (cols df)" by (simp add: has_value_def)
    obtain n where n: "normalized (cells tract_data ind) (s_mean (map (\<lambda>r. cells r ind) (rows df))) = Inr n"
      using normalized_returns by blast
    show ?thesis
      using Cons [of "tv @ [n]" "cv @ [100]" "ls @ [radar_label ind]"]
      by (simp add: True city_mean_known [OF k] bind_r_def n)
  next
    case False
    then show ?thesis using Cons [of tv cv ls] by simp
  qed
qed

lemma radar_loop_returns: "\<exists>out. radar_loop df tract_data inds acc = Inr out"
  using radar_loop_returns_acc [of df tract_data inds "fst acc" "fst (snd acc)" "snd (snd acc)"]
  by simp

lemma radar_loop_acc:
  assumes "tract_data \<in> set (rows df)"
  shows "radar_loop df tract_data inds (tv, cv, ls) =
     Inr (tv @ map (\<lambda>k. Some (let v = the (cells tract_data k);
                                 c = the (s_mean (map (\<lambda>r. cells r k) (rows df)))
                             in if c = 0 then 100 else v / c * 100))
                 (filter (has_value df tract_data) inds),
          cv @ map (\<lambda>k. 100) (filter (has_value df tract_data) inds),
          ls @ map radar_label (filter (has_value df tract_data) inds))"
proof (induction inds arbitrary: tv cv ls)
  case Nil
  show ?case by simp
next
  case (Cons ind inds)
  show ?case
  proof (cases "has_value df tract_data ind")
    case True
    then have k: "ind \<in> set (cols df)" and nn: "cells tract_data ind \<noteq> None"
      by (simp_all add: has_value_def)
    from nn obtain v where v: "cells tract_data ind = Some v" by auto
    from s_mean_defined [OF assms nn] obtain c
      where c: "s_mean (map (\<lambda>r. cells r ind) (rows df)) = Some c" by blast
    show ?thesis
      by (simp add: True city_mean_known [OF k] bind_r_def v c normalized_some Cons.IH)
  next
    case False
    then show ?thesis by (simp add: Cons.IH)
  qed
qed

lemma s_mean_explicit:
  assumes "tract_data \<in> set (rows df)" and "cells tract_data key \<noteq> None"
  shows "s_mean (map (\<lambda>r. cells r key) (rows df)) =
           Some (sum_list (dropna (map (\<lambda>r. cells r key) (rows df)))
                   / real (length (dropna (map (\<lambda>r. cells r key) (rows df)))))"
proof -
  from assms obtain v where v: "cells tract_data key = Some v" by auto
  with assms(1) have "Some v \<in> set (map (\<lambda>r. cells r key) (rows df))" by force
  then have "dropna (map (\<lambda>r. cells r key) (rows df)) \<noteq> []"
    using dropna_member by fastforce
  then show ?thesis by (simp add: s_mean_def Let_def)
qed

lemma st_progress_ok:
  assumes "unit = ''%'' \<longrightarrow> 0 \<le> v"
  shows "st_progress (progress (Some v) unit) = Inr ()"
  using assms by (simp add: st_progress_def progress_def)

lemma st_progress_error: "st_progress p = Inl e \<Longrightarrow> e = StreamlitAPIException"
  by (auto simp: st_progress_def split: option.splits if_splits)

lemma diff_pct_error: "diff_pct value city_avg \<noteq> Inl e"
  by (simp add: diff_pct_def cell_ne0_def cell_div_def bind_r_def)

lemma detail_metrics_error:
  "detail_metrics df tract_data metrics = Inl e \<Longrightarrow> e = StreamlitAPIException"
proof (induction metrics)
  case Nil
  then show ?case by simp
next
  case (Cons m metrics)
  obtain key label unit where m: "m = (key, label, unit)" by (cases m) auto
  show ?case
  proof (cases "has_value df tract_data key")
    case True
    then have k: "key \<in> set (cols df)" by (simp add: has_value_def)
    obtain d where d: "diff_pct (cells tract_data key) (s_mean (map (\<lambda>r. cells r key) (rows df))) = Inr d"
      using diff_pct_error by (metis sum.exhaust)
    show ?thesis
    proof (cases "st_progress (progress (cells tract_data key) unit)")
      case (Inl e')
      with Cons.prems have "e = e'"
        by (simp add: m True city_mean_known [OF k] bind_r_def d Let_def)
      with Inl show ?thesis using st_progress_error by blast
    next
      case (Inr u)
      with Cons.prems have "detail_metrics df tract_data metrics = Inl e"
        by (simp add: m True city_mean_known [OF k] bind_r_def d Let_def split: sum.splits)
      then show ?thesis by (rule Cons.IH)
    qed
  next
    case False
    with Cons show ?thesis by (simp add: m)
  qed
qed

lemma detail_metrics_returns:
  assumes "\<forall>m \<in> set metrics. \<forall>v. snd (snd m) = ''%'' \<and> cells tract_data (fst m) = Some v \<longrightarrow> 0 \<le> v"
  shows "\<exists>out. detail_metrics df tract_data metrics = Inr out"
  using assms
proof (induction metrics)
  case Nil
  show ?case by simp
next
  case (Cons m metrics)
  obtain key label unit where m: "m = (key, label, unit)" by (cases m) auto
  from Cons obtain rest where rest: "detail_metrics df tract_data metrics = Inr rest" by auto
  show ?case
  proof (cases "has_value df tract_data key")
    case True
    then have k: "key \<in> set (cols df)" and nn: "cells tract_data key \<noteq> None"
      by (simp_all add: has_value_def)
    from nn obtain v where v: "cells tract_data key = Some v" by auto
    obtain d where d: "diff_pct (Some v) (s_mean (map (\<lambda>r. cells r key) (rows df))) = Inr d"
      using diff_pct_error by (metis sum.exhaust)
    have "unit = ''%'' \<longrightarrow> 0 \<le> v" using Cons.prems v by (simp add: m)
    then have p: "st_progress (progress (Some v) unit) = Inr ()" by (rule st_progress_ok)
    show ?thesis
      by (simp add: m True city_mean_known [OF k] bind_r_def v d p rest Let_def)
  next
    case False
    then show ?thesis by (simp add: m rest)
  qed
qed

lemma detail_metrics_result:
  assumes "tract_data \<in> set (rows df)"
    and "\<forall>m \<in> set metrics. \<forall>v. snd (snd m) = ''%'' \<and> cells tract_data (fst m) = Some v \<longrightarrow> 0 \<le> v"
  shows "detail_metrics df tract_data metrics =
     Inr (map (\<lambda>(key, label, unit).
                let v = the (cells tract_data key);
                    vs = dropna (map (\<lambda>r. cells r key) (rows df));
                    c = sum_list vs / real (length vs)
                in (label, Some v, progress (Some v) unit,
                    Some (if c = 0 then 0 else (v - c) / c * 100)))
            (filter (\<lambda>m. has_value df tract_data (fst m)) metrics))"
  using assms(2)
proof (induction metrics)
  case Nil
  show ?case by simp
next
  case (Cons m metrics)
  obtain key label unit where m: "m = (key, label, unit)" by (cases m) auto
  have ih: "detail_metrics df tract_data metrics =
     Inr (map (\<lambda>(key, label, unit).
                let v = the (cells tract_data key);
                    vs = dropna (map (\<lambda>r. cells r key) (rows df));
                    c = sum_list vs / real (length vs)
                in (label, Some v, progress (Some v) unit,
                    Some (if c = 0 then 0 else (v - c) / c * 100)))
            (filter (\<lambda>m. has_value df tract_data (fst m)) metrics))"
  proof (rule Cons.IH)
    show "\<forall>m \<in> set metrics. \<forall>v. snd (snd m) = ''%'' \<and> cells tract_data (fst m) = Some v \<longrightarrow> 0 \<le> v"
      using Cons.prems by simp
  qed
  show ?case
  proof (cases "has_value df tract_data key")
    case True
    then have k: "key \<in> set (cols df)" and nn: "cells tract_data key \<noteq> None"
      by (simp_all add: has_value_def)
    from nn obtain v where v: "cells tract_data key = Some v" by auto
    have "unit = ''%'' \<longrightarrow> 0 \<le> v" using Cons.prems v by (simp add: m)
    then have p: "st_progress (progress (Some v) unit) = Inr ()" by (rule st_progress_ok)
    show ?thesis
      by (simp add: m True city_mean_known [OF k] s_mean_explicit [OF assms(1) nn] bind_r_def v
          diff_pct_some p ih Let_def)
  next
    case False
    then show ?thesis by (simp add: m ih)
  qed
qed

lemma radar_loop_explicit_acc:
  assumes "tract_data \<in> set (rows df)"
  shows "radar_loop df tract_data inds (tv, cv, ls) =
     Inr (tv @ map (\<lambda>key. let v = the (cells tract_data key);
                                   vs = dropna (map (\<lambda>r. cells r key) (rows df));
                                   c = sum_list vs / real (length vs)
                               in Some (if c = 0 then 100 else v / c * 100))
                 (filter (has_value df tract_data) inds),
          cv @ map (\<lambda>key. 100) (filter (has_value df tract_data) inds),
          ls @ map radar_label (filter (has_value df tract_data) inds))"
proof (induction inds arbitrary: tv cv ls)
  case Nil
  show ?case by simp
next
  case (Cons ind inds)
  show ?case
  proof (cases "has_value df tract_data ind")
    case True
    then have k: "ind \<in> set (cols df)" and nn: "cells tract_data ind \<noteq> None"
      by (simp_all add: has_value_def)
    from nn obtain v where v: "cells tract_data ind = Some v" by auto
    show ?thesis
      by (simp add: True city_mean_known [OF k] s_mean_explicit [OF assms nn] bind_r_def v
          normalized_some Cons.IH Let_def)
  next
    case False
    then show ?thesis by (simp add: Cons.IH)
  qed
qed

lemma radar_loop_error: "radar_loop df tract_data inds acc \<noteq> Inl e"
  using radar_loop_returns [of df tract_data inds acc] by auto

subsection \<open>Evaluated strings and frames\<close>

lemma str_nat_examples:
  "str_nat 101 = ''101''" "str_nat 102 = ''102''" "str_nat 103 = ''103''"
  "str_nat 2603 = ''2603''"
  by (simp_all add: str_nat.simps digit_char_def)

lemma zfill_examples:
  "zfill 6 ''101'' = ''000101''" "zfill 6 ''102'' = ''000102''" "zfill 6 ''103'' = ''000103''"
  "zfill 6 ''2603'' = ''002603''"
  by (simp_all add: zfill_def numeral_2_eq_2 numeral_3_eq_3)

lemma tract_displays:
  "tract_display (tract_of 101 kvs) = ''Tract 000101''"
  "tract_display (tract_of 102 kvs) = ''Tract 000102''"
  "tract_display (tract_of 103 kvs) = ''Tract 000103''"
  "tract_display (tract_of 2603 kvs) = ''Tract 002603''"
  by (simp_all add: tract_display_def tract_of_def str_nat_examples zfill_examples)

lemma radar_labels:
  "radar_label ''poverty_rate'' = ''Poverty Rate''"
  "radar_label ''unemployment_rate'' = ''Unemployment Rate''"
  "radar_label ''uninsured_rate'' = ''Uninsured Rate''"
  "radar_label ''snap_participation_rate'' = ''Snap Participation Rate''"
  by (simp_all add: radar_label_def title_def replace_char_def is_lower_def is_upper_def
      to_upper_def to_lower_def ascii_lowercase_def ascii_uppercase_def)

lemma dropna_simps:
  "dropna [] = []" "dropna (Some v # xs) = v # dropna xs" "dropna (None # xs) = dropna xs"
  by (simp_all add: dropna_def)

lemma sample_columns:
  "map (\<lambda>r. cells r ''poverty_rate'') (rows sample) = [Some 30, Some 10, Some 5]"
  "map (\<lambda>r. cells r ''unemployment_rate'') (rows sample) = [Some 14, Some 4, Some 6]"
  "map (\<lambda>r. cells r ''median_household_income_econ'') (rows sample)
     = [Some 90000, Some 40000, Some 50000]"
  "map (\<lambda>r. cells r ''gini_index'') (rows sample) = [Some 0.625, Some 0.25, Some 0.25]"
  "map (\<lambda>r. cells r ''snap_participation_rate'') (rows sample) = [Some 75, Some 25, Some 50]"
  "map (\<lambda>r. cells r ''vacancy_rate'') (rows sample) = [Some 0, Some 0, Some 0]"
  "map (\<lambda>r. cells r ''uninsured_rate'') (rows sample) = [Some 0, Some 0, Some 0]"
  by (simp_all add: sample_def tract_101_def tract_of_def)

lemma tract_101_cells:
  "cells tract_101 ''poverty_rate'' = Some 30"
  "cells tract_101 ''unemployment_rate'' = Some 14"
  "cells tract_101 ''median_household_income_econ'' = Some 90000"
  "cells tract_101 ''gini_index'' = Some 0.625"
  "cells tract_101 ''snap_participation_rate'' = Some 75"
  "cells tract_101 ''vacancy_rate'' = Some 0"
  "cells tract_101 ''uninsured_rate'' = Some 0"
  "cells tract_101 ''housing_cost_burden_rate'' = None"
  "cells tract_101 ''public_assistance_rate'' = None"
  "cells tract_101 ''home_ownership_rate'' = None"
  "cells tract_101 ''disability_rate'' = None"
  "cells tract_101 ''college_degree_rate'' = None"
  "cells tract_101 ''long_commute_rate'' = None"
  by (simp_all add: tract_101_def tract_of_def)

lemma sample_has_value:
  "has_value sample tract_101 k =
     (k \<in> {''poverty_rate'', ''unemployment_rate'', ''median_household_income_econ'',
            ''gini_index'', ''snap_participation_rate'', ''vacancy_rate'', ''uninsured_rate''})"
  by (auto simp add: has_value_def sample_def tract_101_def tract_of_def
      simp del: not_None_eq)

lemma tract_101_in_sample: "tract_101 \<in> set (rows sample)"
  by (simp add: sample_def)

lemma select_101: "select_tract sample ''Tract 000101'' = Inr tract_101"
  by (simp add: select_tract_def sample_def tract_101_def tract_displays)

subsection \<open>The comparison of a tract with the city\<close>

text \<open>
  C1. For a tract of the frame, the detail loop and the radar loop give, for every
  indicator they show, the percent difference \<open>(v - c) / c * 100\<close> and the normalized value
  \<open>v / c * 100\<close> of the tract's value \<open>v\<close> and the city average \<open>c\<close>, the sum of the
  column's non-missing values divided by their number; when \<open>c\<close> is 0 they give 0 and 100.
  (The detail loop gets that far when no shown percentage is negative: a negative one
  stops it at the progress bar.) Neither loop ever raises a division by zero.
\<close>

theorem percent_delta_and_normalized_guarded:
  "(tract_data \<in> set (rows df) \<and>
    (\<forall>m \<in> set metrics. \<forall>v. snd (snd m) = ''%'' \<and> cells tract_data (fst m) = Some v \<longrightarrow> 0 \<le> v)
      \<longrightarrow> detail_metrics df tract_data metrics =
            Inr (map (\<lambda>(key, label, unit).
                       let v = the (cells tract_data key);
                           vs = dropna (map (\<lambda>r. cells r key) (rows df));
                           c = sum_list vs / real (length vs)
                       in (label, Some v, progress (Some v) unit,
                           Some (if c = 0 then 0 else (v - c) / c * 100)))
                   (filter (\<lambda>m. has_value df tract_data (fst m)) metrics))) \<and>
   (tract_data \<in> set (rows df)
      \<longrightarrow> radar_loop df tract_data inds ([], [], []) =
            Inr (map (\<lambda>key. let v = the (cells tract_data key);
                                 vs = dropna (map (\<lambda>r. cells r key) (rows df));
                                 c = sum_list vs / real (length vs)
                             in Some (if c = 0 then 100 else v / c * 100))
                   (filter (has_value df tract_data) inds),
                 map (\<lambda>key. 100) (filter (has_value df tract_data) inds),
                 map radar_label (filter (has_value df tract_data) inds))) \<and>
   detail_metrics df tract_data metrics \<noteq> Inl ZeroDivisionError \<and>
   radar_loop df tract_data inds acc \<noteq> Inl ZeroDivisionError"
proof (intro conjI impI)
  assume a: "tract_data \<in> set (rows df) \<and>
    (\<forall>m \<in> set metrics. \<forall>v. snd (snd m) = ''%'' \<and> cells tract_data (fst m) = Some v \<longrightarrow> 0 \<le> v)"
  then have t: "tract_data \<in> set (rows df)"
    and n: "\<forall>m \<in> set metrics. \<forall>v. snd (snd m) = ''%'' \<and> cells tract_data (fst m) = Some v \<longrightarrow> 0 \<le> v"
    by blast+
  show "detail_metrics df tract_data metrics =
            Inr (map (\<lambda>(key, label, unit).
                       let v = the (cells tract_data key);
                           vs = dropna (map (\<lambda>r. cells r key) (rows df));
                           c = sum_list vs / real (length vs)
                       in (label, Some v, progress (Some v) unit,
                           Some (if c = 0 then 0 else (v - c) / c * 100)))
                   (filter (\<lambda>m. has_value df tract_data (fst m)) metrics))"
    using t n by (rule detail_metrics_result)
next
  assume t: "tract_data \<in> set (rows df)"
  show "radar_loop df tract_data inds ([], [], []) =
            Inr (map (\<lambda>key. let v = the (cells tract_data key);
                                 vs = dropna (map (\<lambda>r. cells r key) (rows df));
                                 c = sum_list vs / real (length vs)
                             in Some (if c = 0 then 100 else v / c * 100))
                   (filter (has_value df tract_data) inds),
                 map (\<lambda>key. 100) (filter (has_value df tract_data) inds),
                 map radar_label (filter (has_value df tract_data) inds))"
    using radar_loop_explicit_acc [OF t, of inds "[]" "[]" "[]"] by simp
next
  show "detail_metrics df tract_data metrics \<noteq> Inl ZeroDivisionError"
    using detail_metrics_error [of df tract_data metrics ZeroDivisionError] by auto
next
  show "radar_loop df tract_data inds acc \<noteq> Inl ZeroDivisionError"
    by (rule radar_loop_error)
qed

theorem percent_delta_and_normalized_guarded_witness:
  "tract_101 \<in> set (rows sample) \<and>
   detail_metrics sample tract_101 housing_economic_metrics =
     Inr [(''SNAP Participation'', Some 75, Some 0.75, Some 50),
          (''Vacancy Rate'', Some 0, Some 0, Some 0)] \<and>
   radar_loop sample tract_101 comparison_indicators ([], [], []) =
     Inr ([Some 200, Some 175, Some 150, Some 100], [100, 100, 100, 100],
          [''Poverty Rate'', ''Unemployment Rate'', ''Snap Participation Rate'',
           ''Uninsured Rate''])"
proof -
  have n: "\<forall>m \<in> set housing_economic_metrics.
      \<forall>v. snd (snd m) = ''%'' \<and> cells tract_101 (fst m) = Some v \<longrightarrow> 0 \<le> v"
    by (simp add: housing_economic_metrics_def tract_101_cells)
  have f: "filter (\<lambda>m. has_value sample tract_101 (fst m)) housing_economic_metrics =
      [(''snap_participation_rate'', ''SNAP Participation'', ''%''),
       (''vacancy_rate'', ''Vacancy Rate'', ''%'')]"
    "filter (has_value sample tract_101) comparison_indicators =
      [''poverty_rate'', ''unemployment_rate'', ''snap_participation_rate'', ''uninsured_rate'']"
    by (simp_all add: housing_economic_metrics_def comparison_indicators_def sample_has_value)
  show ?thesis
    using percent_delta_and_normalized_guarded
      [of tract_101 sample housing_economic_metrics comparison_indicators]
    by (simp add: tract_101_in_sample n f sample_columns tract_101_cells dropna_simps
        radar_labels progress_def)
qed

text \<open>
  C4. Over any list of indicator keys, the radar loop leaves out every indicator whose
  value is missing for the tract (or that the frame does not have), without a placeholder,
  and keeps the others in the order of the list: the three output lists are maps over the
  filtered key list, and every tract value is a number.
\<close>

theorem radar_omits_missing_keeps_order:
  assumes "tract_data \<in> set (rows df)"
  shows "radar_loop df tract_data inds ([], [], []) =
     Inr (map (\<lambda>k. Some (let v = the (cells tract_data k);
                            c = the (s_mean (map (\<lambda>r. cells r k) (rows df)))
                        in if c = 0 then 100 else v / c * 100))
            (filter (has_value df tract_data) inds),
          map (\<lambda>k. 100) (filter (has_value df tract_data) inds),
          map radar_label (filter (has_value df tract_data) inds))"
  using radar_loop_acc [OF assms, of inds "[]" "[]" "[]"] by simp

theorem radar_omits_missing_keeps_order_witness:
  "gap_a \<in> set (rows with_gaps) \<and>
   filter (has_value with_gaps gap_a) comparison_indicators = [''poverty_rate'', ''uninsured_rate''] \<and>
   radar_loop with_gaps gap_a comparison_indicators ([], [], []) =
     Inr ([Some 50, Some 100], [100, 100], [''Poverty Rate'', ''Uninsured Rate''])"
proof -
  have m: "gap_a \<in> set (rows with_gaps)" by (simp add: with_gaps_def)
  have f: "filter (has_value with_gaps gap_a) comparison_indicators = [''poverty_rate'', ''uninsured_rate'']"
    by (simp add: has_value_def with_gaps_def gap_a_def tract_of_def comparison_indicators_def)
  have v: "s_mean (map (\<lambda>r. cells r ''poverty_rate'') (rows with_gaps)) = Some 20"
      "s_mean (map (\<lambda>r. cells r ''uninsured_rate'') (rows with_gaps)) = Some 5"
      "cells gap_a ''poverty_rate'' = Some 10" "cells gap_a ''uninsured_rate'' = Some 5"
    by (simp_all add: s_mean_def dropna_def with_gaps_def gap_a_def gap_b_def tract_of_def)
  show ?thesis
    using radar_omits_missing_keeps_order [OF m, of comparison_indicators]
    by (simp add: m f v radar_labels)
qed

subsection \<open>Statistics and multisets\<close>

lemma mset_dropna: "mset (dropna xs) = image_mset the (filter_mset (\<lambda>c. c \<noteq> None) (mset xs))"
  by (simp add: dropna_def)

lemma dropna_Some [simp]: "dropna (map Some v) = v"
  by (induction v) (simp_all add: dropna_def)

lemma dropna_append_None [simp]: "dropna (xs @ [None]) = dropna xs"
  by (simp add: dropna_def)

lemma s_median_mset:
  assumes "mset (dropna xs) = mset (dropna ys)"
  shows "s_median xs = s_median ys"
proof -
  have "sort (dropna xs) = sort (dropna ys)"
    using assms by (metis sorted_list_of_multiset_mset)
  then show ?thesis by (simp add: s_median_def)
qed

lemma fold_min_Min: "fold min vs (v::real) = Min (insert v (set vs))"
  using Min.set_eq_fold [of v vs] by simp

lemma fold_max_Max: "fold max vs (v::real) = Max (insert v (set vs))"
  using Max.set_eq_fold [of v vs] by simp

lemma s_min_alt: "s_min xs = (if dropna xs = [] then None else Some (Min (set (dropna xs))))"
  by (cases "dropna xs") (simp_all add: s_min_def fold_min_Min)

lemma s_max_alt: "s_max xs = (if dropna xs = [] then None else Some (Max (set (dropna xs))))"
  by (cases "dropna xs") (simp_all add: s_max_def fold_max_Max)

lemma s_min_mset:
  assumes "mset (dropna xs) = mset (dropna ys)"
  shows "s_min xs = s_min ys"
proof -
  have "set (dropna xs) = set (dropna ys)" using assms by (rule mset_eq_setD)
  moreover have "(dropna xs = []) = (dropna ys = [])"
    using assms by (metis mset_zero_iff)
  ultimately show ?thesis by (simp add: s_min_alt)
qed

lemma s_max_mset:
  assumes "mset (dropna xs) = mset (dropna ys)"
  shows "s_max xs = s_max ys"
proof -
  have "set (dropna xs) = set (dropna ys)" using assms by (rule mset_eq_setD)
  moreover have "(dropna xs = []) = (dropna ys = [])"
    using assms by (metis mset_zero_iff)
  ultimately show ?thesis by (simp add: s_max_alt)
qed

lemma column_perm:
  assumes "mset (rows df') = mset (rows df)"
  shows "mset (dropna (map (\<lambda>r. cells r k) (rows df'))) = mset (dropna (map (\<lambda>r. cells r k) (rows df)))"
proof -
  have "mset (map (\<lambda>r. cells r k) (rows df')) = mset (map (\<lambda>r. cells r k) (rows df))"
    using assms by (metis mset_map)
  then show ?thesis by (simp add: mset_dropna)
qed

lemma column_append_missing:
  assumes "cells r k = None"
  shows "dropna (map (\<lambda>r. cells r k) (rows (df\<lparr>rows := rows df @ [r]\<rparr>))) = dropna (map (\<lambda>r. cells r k) (rows df))"
  using assms by simp

lemma order_statistics_mset:
  assumes "cols df' = cols df"
    and "mset (dropna (map (\<lambda>r. cells r k) (rows df'))) = mset (dropna (map (\<lambda>r. cells r k) (rows df)))"
  shows "bind_r (indicator_statistics df' k) (\<lambda>(mn, med, mx, sd). Inr (mn, med, mx)) =
         bind_r (indicator_statistics df k) (\<lambda>(mn, med, mx, sd). Inr (mn, med, mx))"
proof (cases "k \<in> set (cols df)")
  case True
  let ?a = "map Some (dropna (map (\<lambda>r. cells r k) (rows df')))"
  let ?b = "map Some (dropna (map (\<lambda>r. cells r k) (rows df)))"
  have m: "mset (dropna ?a) = mset (dropna ?b)" using assms(2) by simp
  show ?thesis
    using s_min_mset [OF m] s_median_mset [OF m] s_max_mset [OF m]
    by (simp add: indicator_statistics_def getcol_def bind_r_def assms(1) True Let_def)
next
  case False
  then show ?thesis by (simp add: indicator_statistics_def getcol_def bind_r_def assms(1))
qed

text \<open>
  C5, as the code has it. The minimum, median and maximum of an indicator column depend
  only on the multiset of its non-missing values: two frames with the same columns and the
  same such multiset give the same three, so permuting the rows changes none of them.
  Appending a row whose cell in that column is missing leaves the column without its
  missing values as it was, and with it the minimum, median, maximum and standard
  deviation.
\<close>

theorem order_statistics_depend_on_multiset:
  "(cols df' = cols df \<and>
    mset (dropna (map (\<lambda>r. cells r k) (rows df'))) = mset (dropna (map (\<lambda>r. cells r k) (rows df)))
      \<longrightarrow> bind_r (indicator_statistics df' k) (\<lambda>(mn, med, mx, sd). Inr (mn, med, mx)) =
          bind_r (indicator_statistics df k) (\<lambda>(mn, med, mx, sd). Inr (mn, med, mx))) \<and>
   (cols df' = cols df \<and> mset (rows df') = mset (rows df)
      \<longrightarrow> bind_r (indicator_statistics df' k) (\<lambda>(mn, med, mx, sd). Inr (mn, med, mx)) =
          bind_r (indicator_statistics df k) (\<lambda>(mn, med, mx, sd). Inr (mn, med, mx))) \<and>
   (cells r k = None
      \<longrightarrow> dropna (map (\<lambda>r. cells r k) (rows (df\<lparr>rows := rows df @ [r]\<rparr>))) =
            dropna (map (\<lambda>r. cells r k) (rows df)) \<and>
          indicator_statistics (df\<lparr>rows := rows df @ [r]\<rparr>) k = indicator_statistics df k)"
proof (intro conjI impI)
  assume a: "cols df' = cols df \<and>
    mset (dropna (map (\<lambda>r. cells r k) (rows df'))) = mset (dropna (map (\<lambda>r. cells r k) (rows df)))"
  then have c: "cols df' = cols df"
    and m: "mset (dropna (map (\<lambda>r. cells r k) (rows df'))) = mset (dropna (map (\<lambda>r. cells r k) (rows df)))"
    by blast+
  show "bind_r (indicator_statistics df' k) (\<lambda>(mn, med, mx, sd). Inr (mn, med, mx)) =
          bind_r (indicator_statistics df k) (\<lambda>(mn, med, mx, sd). Inr (mn, med, mx))"
    using c m by (rule order_statistics_mset)
next
  assume a: "cols df' = cols df \<and> mset (rows df') = mset (rows df)"
  then have c: "cols df' = cols df" and p: "mset (rows df') = mset (rows df)"
    by blast+
  have m: "mset (dropna (map (\<lambda>r. cells r k) (rows df'))) = mset (dropna (map (\<lambda>r. cells r k) (rows df)))"
    using p by (rule column_perm)
  show "bind_r (indicator_statistics df' k) (\<lambda>(mn, med, mx, sd). Inr (mn, med, mx)) =
          bind_r (indicator_statistics df k) (\<lambda>(mn, med, mx, sd). Inr (mn, med, mx))"
    using c m by (rule order_statistics_mset)
next
  assume a: "cells r k = None"
  show d: "dropna (map (\<lambda>r. cells r k) (rows (df\<lparr>rows := rows df @ [r]\<rparr>))) =
            dropna (map (\<lambda>r. cells r k) (rows df))"
    using a by (rule column_append_missing)
  show "indicator_statistics (df\<lparr>rows := rows df @ [r]\<rparr>) k = indicator_statistics df k"
    using d by (simp add: indicator_statistics_def getcol_def bind_r_def)
qed

theorem order_statistics_depend_on_multiset_witness:
  "cols four_tracts_permuted = cols four_tracts \<and>
   mset (rows four_tracts_permuted) = mset (rows four_tracts) \<and>
   mset (dropna (map (\<lambda>r. cells r ''poverty_rate'') (rows four_tracts_permuted)))
     = mset (dropna (map (\<lambda>r. cells r ''poverty_rate'') (rows four_tracts))) \<and>
   bind_r (indicator_statistics four_tracts_permuted ''poverty_rate'')
       (\<lambda>(mn, med, mx, sd). Inr (mn, med, mx)) =
     bind_r (indicator_statistics four_tracts ''poverty_rate'')
       (\<lambda>(mn, med, mx, sd). Inr (mn, med, mx)) \<and>
   bind_r (indicator_statistics four_tracts ''poverty_rate'')
       (\<lambda>(mn, med, mx, sd). Inr (mn, med, mx)) = Inr (Some 51.9, Some 76.75, Some 93.2) \<and>
   cells (tract_of 105 []) ''poverty_rate'' = None \<and>
   indicator_statistics (four_tracts\<lparr>rows := rows four_tracts @ [tract_of 105 []]\<rparr>) ''poverty_rate''
     = indicator_statistics four_tracts ''poverty_rate''"
proof -
  have c: "cols four_tracts_permuted = cols four_tracts"
    by (simp add: four_tracts_def four_tracts_permuted_def)
  have p: "mset (rows four_tracts_permuted) = mset (rows four_tracts)"
    by (simp add: four_tracts_def four_tracts_permuted_def)
  have m: "mset (dropna (map (\<lambda>r. cells r ''poverty_rate'') (rows four_tracts_permuted)))
     = mset (dropna (map (\<lambda>r. cells r ''poverty_rate'') (rows four_tracts)))"
    using p by (rule column_perm)
  have n: "cells (tract_of 105 []) ''poverty_rate'' = None"
    by (simp add: tract_of_def)
  have v: "bind_r (indicator_statistics four_tracts ''poverty_rate'')
       (\<lambda>(mn, med, mx, sd). Inr (mn, med, mx)) = Inr (Some 51.9, Some 76.75, Some 93.2)"
    by (simp add: indicator_statistics_def getcol_def bind_r_def four_tracts_def tract_of_def
        dropna_simps s_min_def s_median_def s_max_def Let_def)
  show ?thesis
    using order_statistics_depend_on_multiset
      [of four_tracts_permuted four_tracts "''poverty_rate''" "tract_of 105 []"]
    by (simp add: c p m n v)
qed

text \<open>
  C5 as stated (the mean too is unchanged by a permutation of the rows) does not hold.
  With the poverty rates 51.9, 84.9, 93.2, 68.6 in this order the mean in doubles is
  74.65 (the double nearest to it); with the same four rows in the order 84.9, 68.6, 93.2,
  51.9 it is the next double below, 74.64999999999999.
\<close>

theorem permuted_rows_change_the_mean:
  "cols four_tracts_permuted = cols four_tracts \<and>
   mset (rows four_tracts_permuted) = mset (rows four_tracts) \<and>
   city_mean_double four_tracts ''poverty_rate''
     = Inr (Double (Some (2626513376431309 / 35184372088832))) \<and>
   city_mean_double four_tracts_permuted ''poverty_rate''
     = Inr (Double (Some (5253026752862617 / 70368744177664))) \<and>
   city_mean_double four_tracts_permuted ''poverty_rate''
     \<noteq> city_mean_double four_tracts ''poverty_rate''"
proof -
  have a: "city_mean_double four_tracts ''poverty_rate''
     = Inr (Double (Some (2626513376431309 / 35184372088832)))"
    by (simp add: city_mean_double_def getcol_def bind_r_def four_tracts_def tract_of_def
        s_mean_double_def dropna_simps double_def halvings.simps round_half_even_def Let_def)
  have b: "city_mean_double four_tracts_permuted ''poverty_rate''
     = Inr (Double (Some (5253026752862617 / 70368744177664)))"
    by (simp add: city_mean_double_def getcol_def bind_r_def four_tracts_permuted_def
        tract_of_def s_mean_double_def dropna_simps double_def halvings.simps
        round_half_even_def Let_def)
  have c: "cols four_tracts_permuted = cols four_tracts"
    by (simp add: four_tracts_def four_tracts_permuted_def)
  have p: "mset (rows four_tracts_permuted) = mset (rows four_tracts)"
    by (simp add: four_tracts_def four_tracts_permuted_def)
  show ?thesis
    by (simp add: a b c p)
qed

subsection \<open>Three tracts\<close>

lemma three_tracts_columns:
  "map (\<lambda>r. cells r ''poverty_rate'') (rows three_tracts) = [Some 10, Some 20, Some 30]"
  "map (\<lambda>r. cells r ''unemployment_rate'') (rows three_tracts) = [Some 4, Some 8, Some 12]"
  "map (\<lambda>r. cells r ''median_household_income_econ'') (rows three_tracts)
     = [Some 40000, Some 50000, Some 90000]"
  "map (\<lambda>r. cells r ''gini_index'') (rows three_tracts) = [Some 0.25, Some 0.75, Some 0.5]"
  by (simp_all add: three_tracts_def tract_2603_def tract_of_def)

lemma three_tracts_aggregates:
  "city_mean three_tracts ''poverty_rate'' = Inr (Some 20)"
  "city_mean three_tracts ''unemployment_rate'' = Inr (Some 8)"
  "city_median three_tracts ''median_household_income_econ'' = Inr (Some 50000)"
  "city_mean three_tracts ''gini_index'' = Inr (Some 0.5)"
  by (simp_all add: city_mean_def city_median_def getcol_def bind_r_def three_tracts_columns
      s_mean_def s_median_def dropna_simps)
     (simp_all add: three_tracts_def)

lemma three_tracts_statistics:
  "indicator_statistics three_tracts ''poverty_rate'' = Inr (Some 10, Some 20, Some 30, Some 10)"
  by (simp add: indicator_statistics_def getcol_def bind_r_def three_tracts_columns
      s_min_def s_median_def s_max_def s_std_def dropna_simps Let_def)
     (simp add: three_tracts_def)

lemma select_2603: "select_tract three_tracts ''Tract 002603'' = Inr tract_2603"
  by (simp add: select_tract_def three_tracts_def tract_2603_def tract_displays)

lemma tract_2603_cells:
  "cells tract_2603 ''poverty_rate'' = Some 30"
  "cells tract_2603 ''unemployment_rate'' = Some 12"
  "cells tract_2603 ''median_household_income_econ'' = Some 90000"
  "cells tract_2603 ''gini_index'' = Some 0.5"
  by (simp_all add: tract_2603_def tract_of_def)

lemma three_tracts_has_value:
  "has_value three_tracts tract_2603 k =
     (k \<in> {''poverty_rate'', ''unemployment_rate'', ''median_household_income_econ'', ''gini_index''})"
  by (auto simp add: has_value_def three_tracts_def tract_2603_def tract_of_def
      simp del: not_None_eq)

lemma three_tracts_overview:
  "show_city_overview three_tracts ''poverty_rate'' =
     Inr \<lparr>census_tracts = 3, avg_poverty = Some 20, avg_unemployment = Some 8,
          median_income = Some 50000,
          stat_min = Some 10, stat_median = Some 20, stat_max = Some 30, stat_std = Some 10\<rparr>"
  by (simp add: show_city_overview_def three_tracts_aggregates three_tracts_statistics bind_r_def)
     (simp add: three_tracts_def)

lemma three_tracts_explorer:
  "show_neighborhood_explorer three_tracts ''Tract 002603'' =
     Inr \<lparr>key_poverty = (Some 30, Some 10), key_unemployment = (Some 12, Some 4),
          key_income = (Some 90000, Some 40000), key_gini = (Some 0.5, Some 0),
          housing_economic = [], health_education = [],
          radar_tract_values = [Some 150, Some 150], radar_city_values = [100, 100],
          radar_labels = [''Poverty Rate'', ''Unemployment Rate'']\<rparr>"
proof -
  have ki: "key_indicator three_tracts tract_2603 ''poverty_rate'' city_mean = Inr (Some 30, Some 10)"
    "key_indicator three_tracts tract_2603 ''unemployment_rate'' city_mean = Inr (Some 12, Some 4)"
    "key_indicator three_tracts tract_2603 ''median_household_income_econ'' city_median
       = Inr (Some 90000, Some 40000)"
    "key_indicator three_tracts tract_2603 ''gini_index'' city_mean = Inr (Some 0.5, Some 0)"
    by (simp_all add: key_indicator_def getitem_def three_tracts_aggregates tract_2603_cells
        bind_r_def cell_sub_def)
       (simp_all add: three_tracts_def)
  have dm: "detail_metrics three_tracts tract_2603 housing_economic_metrics = Inr []"
    "detail_metrics three_tracts tract_2603 health_education_metrics = Inr []"
    by (simp_all add: housing_economic_metrics_def health_education_metrics_def
        three_tracts_has_value)
  have rl: "radar_loop three_tracts tract_2603 comparison_indicators ([], [], []) =
      Inr ([Some 150, Some 150], [100, 100], [''Poverty Rate'', ''Unemployment Rate''])"
    by (simp add: comparison_indicators_def three_tracts_has_value three_tracts_aggregates
        tract_2603_cells bind_r_def normalized_some radar_labels)
  show ?thesis
    by (simp add: show_neighborhood_explorer_def select_2603 ki dm rl bind_r_def)
qed

text \<open>
  C6, as the code has it. Three tracts with poverty rates 10, 20 and 30: the statistics are
  minimum 10, median 20, maximum 30, and the mean is 20; for the tract with 30 the delta to
  the city is 10 and the normalized value 150.
\<close>

theorem three_tracts_scenario:
  "show_city_overview three_tracts ''poverty_rate'' =
     Inr \<lparr>census_tracts = 3, avg_poverty = Some 20, avg_unemployment = Some 8,
          median_income = Some 50000,
          stat_min = Some 10, stat_median = Some 20, stat_max = Some 30, stat_std = Some 10\<rparr> \<and>
   city_mean three_tracts ''poverty_rate'' = Inr (Some 20) \<and>
   show_neighborhood_explorer three_tracts ''Tract 002603'' =
     Inr \<lparr>key_poverty = (Some 30, Some 10), key_unemployment = (Some 12, Some 4),
          key_income = (Some 90000, Some 40000), key_gini = (Some 0.5, Some 0),
          housing_economic = [], health_education = [],
          radar_tract_values = [Some 150, Some 150], radar_city_values = [100, 100],
          radar_labels = [''Poverty Rate'', ''Unemployment Rate'']\<rparr>"
  using three_tracts_overview three_tracts_explorer three_tracts_aggregates(1) by simp

text \<open>
  C6 as stated (the comparison also yields a percent delta of 50 for the poverty rate)
  does not hold: a percent difference is computed only in the two detail lists, neither of
  which has the poverty rate, and for this tract both come out empty.
\<close>

theorem three_tracts_no_percent_delta:
  "''poverty_rate'' \<notin> set (map fst housing_economic_metrics) \<and>
   ''poverty_rate'' \<notin> set (map fst health_education_metrics) \<and>
   bind_r (show_neighborhood_explorer three_tracts ''Tract 002603'')
     (\<lambda>view. Inr (housing_economic view, health_education view)) = Inr ([], [])"
  by (simp add: three_tracts_explorer bind_r_def housing_economic_metrics_def
      health_education_metrics_def)

subsection \<open>The key-indicator cards\<close>

lemma key_indicator_known:
  assumes "key \<in> set (cols df)"
  shows "key_indicator df tract_data key city_mean =
           Inr (cells tract_data key,
                cell_sub (cells tract_data key) (s_mean (map (\<lambda>r. cells r key) (rows df))))"
    and "key_indicator df tract_data key city_median =
           Inr (cells tract_data key,
                cell_sub (cells tract_data key) (s_median (map (\<lambda>r. cells r key) (rows df))))"
  using assms
  by (simp_all add: key_indicator_def getitem_def city_mean_def city_median_def getcol_def
      bind_r_def)

text \<open>
  C7. For the selected tract, on each key-indicator card the delta is the tract's value
  minus the city aggregate of that column over all rows: the mean for the poverty rate,
  the unemployment rate and the Gini index, the median for
  \<^verbatim>\<open>median_household_income_econ\<close>. Every view the explorer returns holds these four
  cards; it returns one whenever no detail percentage of the tract is negative, and the
  only exception it can raise otherwise is that of a progress bar. (The detail lines and
  the radar chart use the mean, as C1 and C4 state.)
\<close>

theorem key_indicator_aggregates:
  assumes "select_tract df selected_tract = Inr tract_data"
    and "set [''poverty_rate'', ''unemployment_rate'', ''median_household_income_econ'',
              ''gini_index''] \<subseteq> set (cols df)"
  shows "(\<forall>view. show_neighborhood_explorer df selected_tract = Inr view \<longrightarrow>
     key_poverty view =
       (cells tract_data ''poverty_rate'',
        cell_sub (cells tract_data ''poverty_rate'')
          (s_mean (map (\<lambda>r. cells r ''poverty_rate'') (rows df)))) \<and>
     key_unemployment view =
       (cells tract_data ''unemployment_rate'',
        cell_sub (cells tract_data ''unemployment_rate'')
          (s_mean (map (\<lambda>r. cells r ''unemployment_rate'') (rows df)))) \<and>
     key_income view =
       (cells tract_data ''median_household_income_econ'',
        cell_sub (cells tract_data ''median_household_income_econ'')
          (s_median (map (\<lambda>r. cells r ''median_household_income_econ'') (rows df)))) \<and>
     key_gini view =
       (cells tract_data ''gini_index'',
        cell_sub (cells tract_data ''gini_index'')
          (s_mean (map (\<lambda>r. cells r ''gini_index'') (rows df))))) \<and>
   ((\<forall>m \<in> set (housing_economic_metrics @ health_education_metrics).
        \<forall>v. cells tract_data (fst m) = Some v \<longrightarrow> 0 \<le> v) \<longrightarrow>
      (\<exists>view. show_neighborhood_explorer df selected_tract = Inr view)) \<and>
   (\<forall>e. show_neighborhood_explorer df selected_tract = Inl e \<longrightarrow> e = StreamlitAPIException) \<and>
   (\<forall>tract_value city_aggregate.
      cell_sub (Some tract_value) (Some city_aggregate) = Some (tract_value - city_aggregate))"
proof -
  from assms(2) have k: "''poverty_rate'' \<in> set (cols df)" "''unemployment_rate'' \<in> set (cols df)"
    "''median_household_income_econ'' \<in> set (cols df)" "''gini_index'' \<in> set (cols df)"
    by simp_all
  note ki = key_indicator_known(1) [OF k(1)] key_indicator_known(1) [OF k(2)]
    key_indicator_known(2) [OF k(3)] key_indicator_known(1) [OF k(4)]
  obtain tv cv ls where r: "radar_loop df tract_data comparison_indicators ([], [], []) = Inr (tv, cv, ls)"
    using radar_loop_returns_acc by (metis prod_cases3)
  have cards: "\<forall>view. show_neighborhood_explorer df selected_tract = Inr view \<longrightarrow>
     key_poverty view =
       (cells tract_data ''poverty_rate'',
        cell_sub (cells tract_data ''poverty_rate'')
          (s_mean (map (\<lambda>r. cells r ''poverty_rate'') (rows df)))) \<and>
     key_unemployment view =
       (cells tract_data ''unemployment_rate'',
        cell_sub (cells tract_data ''unemployment_rate'')
          (s_mean (map (\<lambda>r. cells r ''unemployment_rate'') (rows df)))) \<and>
     key_income view =
       (cells tract_data ''median_household_income_econ'',
        cell_sub (cells tract_data ''median_household_income_econ'')
          (s_median (map (\<lambda>r. cells r ''median_household_income_econ'') (rows df)))) \<and>
     key_gini view =
       (cells tract_data ''gini_index'',
        cell_sub (cells tract_data ''gini_index'')
          (s_mean (map (\<lambda>r. cells r ''gini_index'') (rows df))))"
    by (auto simp add: show_neighborhood_explorer_def assms(1) bind_r_def ki r
        split: sum.splits)
  have returns: "(\<forall>m \<in> set (housing_economic_metrics @ health_education_metrics).
        \<forall>v. cells tract_data (fst m) = Some v \<longrightarrow> 0 \<le> v) \<longrightarrow>
      (\<exists>view. show_neighborhood_explorer df selected_tract = Inr view)"
  proof
    assume n: "\<forall>m \<in> set (housing_economic_metrics @ health_education_metrics).
        \<forall>v. cells tract_data (fst m) = Some v \<longrightarrow> 0 \<le> v"
    have "\<forall>m \<in> set housing_economic_metrics.
        \<forall>v. snd (snd m) = ''%'' \<and> cells tract_data (fst m) = Some v \<longrightarrow> 0 \<le> v"
      using n by auto
    then obtain housing where h: "detail_metrics df tract_data housing_economic_metrics = Inr housing"
      using detail_metrics_returns by blast
    have "\<forall>m \<in> set health_education_metrics.
        \<forall>v. snd (snd m) = ''%'' \<and> cells tract_data (fst m) = Some v \<longrightarrow> 0 \<le> v"
      using n by auto
    then obtain health where e: "detail_metrics df tract_data health_education_metrics = Inr health"
      using detail_metrics_returns by blast
    show "\<exists>view. show_neighborhood_explorer df selected_tract = Inr view"
      by (simp add: show_neighborhood_explorer_def assms(1) bind_r_def ki h e r)
  qed
  have errors: "\<forall>e. show_neighborhood_explorer df selected_tract = Inl e \<longrightarrow> e = StreamlitAPIException"
    using detail_metrics_error [of df tract_data housing_economic_metrics]
      detail_metrics_error [of df tract_data health_education_metrics]
    by (auto simp add: show_neighborhood_explorer_def assms(1) bind_r_def ki r
        split: sum.splits)
  show ?thesis
    using cards returns errors by (simp add: cell_sub_def)
qed

theorem key_indicator_aggregates_witness:
  "select_tract sample ''Tract 000101'' = Inr tract_101 \<and>
   set [''poverty_rate'', ''unemployment_rate'', ''median_household_income_econ'', ''gini_index'']
     \<subseteq> set (cols sample) \<and>
   (\<exists>view. show_neighborhood_explorer sample ''Tract 000101'' = Inr view \<and>
      key_poverty view = (Some 30, Some 15) \<and>
      key_unemployment view = (Some 14, Some 6) \<and>
      key_income view = (Some 90000, Some 40000) \<and>
      key_gini view = (Some 0.625, Some 0.25))"
proof -
  have c: "set [''poverty_rate'', ''unemployment_rate'', ''median_household_income_econ'',
      ''gini_index''] \<subseteq> set (cols sample)"
    by (simp add: sample_def)
  have n: "\<forall>m \<in> set (housing_economic_metrics @ health_education_metrics).
        \<forall>v. cells tract_101 (fst m) = Some v \<longrightarrow> 0 \<le> v"
    by (simp add: housing_economic_metrics_def health_education_metrics_def tract_101_cells)
  have a: "s_mean [Some 30, Some 10, Some 5] = Some 15" "s_mean [Some 14, Some 4, Some 6] = Some 8"
    "s_median [Some 90000, Some 40000, Some 50000] = Some 50000"
    "s_mean [Some 0.625, Some 0.25, Some 0.25] = Some 0.375"
    by (simp_all add: s_mean_def s_median_def dropna_simps)
  note t = key_indicator_aggregates [OF select_101 c]
  from t n obtain view where v: "show_neighborhood_explorer sample ''Tract 000101'' = Inr view"
    by blast
  with t have "key_poverty view = (Some 30, Some 15) \<and>
      key_unemployment view = (Some 14, Some 6) \<and>
      key_income view = (Some 90000, Some 40000) \<and>
      key_gini view = (Some 0.625, Some 0.25)"
    by (simp add: sample_columns tract_101_cells a [simplified] cell_sub_def)
  with v select_101 c show ?thesis
    by blast
qed

subsection \<open>Correlation on too few observations\<close>

lemma pearson_short: "length ps < 2 \<Longrightarrow> pearson ps = None"
proof (cases ps)
  case Nil
  then show ?thesis by (simp add: pearson_def)
next
  case (Cons p qs)
  assume "length ps < 2"
  with Cons have q: "qs = []" by simp
  obtain x y where p: "p = (x, y)" by (cases p) auto
  show ?thesis by (simp add: Cons q p pearson_def)
qed

text \<open>
  C3, as the code has it. When both columns exist and fewer than 2 rows have both values,
  the correlation computation does not fail: the coefficient is NaN and it is classified
  Weak.
\<close>

theorem correlation_of_few_pairs_is_nan:
  assumes "x_var \<in> set (cols df)" and "y_var \<in> set (cols df)"
    and "length (paired (map (\<lambda>r. cells r x_var) (rows df))
                        (map (\<lambda>r. cells r y_var) (rows df))) < 2"
  shows "show_indicator_analysis df x_var y_var = Inr (None, Weak)"
  using assms
  by (simp add: show_indicator_analysis_def getcol_def bind_r_def pearson_short classify_def
      cell_abs_gt_def)

theorem correlation_of_few_pairs_is_nan_witness:
  "''poverty_rate'' \<in> set (cols with_gaps) \<and> ''uninsured_rate'' \<in> set (cols with_gaps) \<and>
   length (paired (map (\<lambda>r. cells r ''poverty_rate'') (rows with_gaps))
                  (map (\<lambda>r. cells r ''uninsured_rate'') (rows with_gaps))) < 2 \<and>
   show_indicator_analysis with_gaps ''poverty_rate'' ''uninsured_rate'' = Inr (None, Weak)"
proof -
  have x: "''poverty_rate'' \<in> set (cols with_gaps)" and y: "''uninsured_rate'' \<in> set (cols with_gaps)"
    by (simp_all add: with_gaps_def)
  have n: "length (paired (map (\<lambda>r. cells r ''poverty_rate'') (rows with_gaps))
                  (map (\<lambda>r. cells r ''uninsured_rate'') (rows with_gaps))) < 2"
    by (simp add: paired_def with_gaps_def gap_a_def gap_b_def tract_of_def)
  from correlation_of_few_pairs_is_nan [OF x y n] x y n show ?thesis by blast
qed

text \<open>
  C3 as stated (such a computation fails instead of giving NaN) does not hold: a frame
  with a single tract has one paired observation, and the analysis returns NaN and Weak.
\<close>

theorem single_tract_correlation_returns_nan:
  "length (paired (map (\<lambda>r. cells r ''poverty_rate'') (rows one_tract))
                  (map (\<lambda>r. cells r ''uninsured_rate'') (rows one_tract))) = 1 \<and>
   show_indicator_analysis one_tract ''poverty_rate'' ''uninsured_rate'' = Inr (None, Weak)"
  by (simp add: show_indicator_analysis_def getcol_def bind_r_def pearson_def paired_def
      classify_def cell_abs_gt_def one_tract_def tract_of_def)

subsection \<open>Loading\<close>

text \<open>
  C8, as the code has it. \<^verbatim>\<open>load_data\<close> gives no frame, and an error banner, exactly when
  the file is absent or cannot be parsed; \<^verbatim>\<open>main\<close> then shows no page. Every table that
  parses is returned as the frame, whatever its number of rows.
\<close>

theorem load_data_none_iff_read_raises:
  "(fst (load_data src) = None \<longleftrightarrow> src = Absent \<or> src = Malformed) \<and>
   (\<forall>df. src = Table df \<longrightarrow> load_data src = (Some df, [])) \<and>
   (src = Absent \<or> src = Malformed \<longrightarrow>
      snd (load_data src) \<noteq> [] \<and> (\<forall>view. snd (dashboard_main src view) = Inr No_Page))"
  by (cases src) (simp_all add: load_data_def read_csv_def dashboard_main_def)

theorem load_data_none_iff_read_raises_witness:
  "fst (load_data Absent) = None \<and> snd (load_data Absent) \<noteq> [] \<and>
   snd (dashboard_main Absent About) = Inr No_Page \<and>
   fst (load_data Malformed) = None \<and>
   load_data (Table three_tracts) = (Some three_tracts, [])"
  using load_data_none_iff_read_raises [of Absent] load_data_none_iff_read_raises [of Malformed]
    load_data_none_iff_read_raises [of "Table three_tracts"]
  by simp

text \<open>
  C8 as stated (no frame either when the table has no row) does not hold: a file with a
  header line and no row is loaded as a frame without rows.
\<close>

theorem header_only_file_is_loaded:
  "rows header_only = [] \<and> load_data (Table header_only) = (Some header_only, []) \<and>
   fst (load_data (Table header_only)) \<noteq> None"
  by (simp add: load_data_def read_csv_def header_only_def)

subsection \<open>The pipeline driver\<close>

lemma run_script_ok: "fst (run_script w s d tr) = (run_outcome w s = Exited 0)"
  by (simp add: run_script_def split: proc_result.splits)

lemma run_script_trace: "snd (run_script w s d tr) = tr @ [Spawn s]"
  by (simp add: run_script_def)

text \<open>
  C9. In every run of the pipeline, once a script that was started has not ended with exit
  status 0 (a non-zero status, the 5-minute timeout, or an exception of the call), nothing
  after it in the run is a script start or a validation: the sequence halts at the first
  failing step.
\<close>

theorem pipeline_halts_at_first_failure:
  assumes "snd (pipeline_main w a) = pre @ Spawn s # post"
    and "run_outcome w s \<noteq> Exited 0"
  shows "\<forall>e \<in> set post. (\<forall>s'. e \<noteq> Spawn s') \<and> (\<forall>p t. e \<noteq> Validation p t)"
  using assms
  apply (simp add: pipeline_main_def run_data_extraction_def extraction_steps_def
      run_data_integration_def run_dashboard_generation_def Let_def split_beta
      run_script_ok run_script_trace run_validation_def split: if_splits)
         apply (auto simp: Cons_eq_append_conv append_eq_Cons_conv)
  done

theorem pipeline_halts_at_first_failure_witness:
  "snd (pipeline_main fetch_fails \<lparr>skip_download = False, validate_only = False\<rparr>) =
     [Prerequisites True, Spawn ''expand_health_indicators.py'']
       @ Spawn ''fetch_census_economic_data.py'' # [Summary False] \<and>
   run_outcome fetch_fails ''fetch_census_economic_data.py'' \<noteq> Exited 0 \<and>
   (\<forall>s'. Summary False \<noteq> Spawn s') \<and> (\<forall>p t. Summary False \<noteq> Validation p t)"
proof -
  have tr: "snd (pipeline_main fetch_fails \<lparr>skip_download = False, validate_only = False\<rparr>) =
     [Prerequisites True, Spawn ''expand_health_indicators.py'']
       @ Spawn ''fetch_census_economic_data.py'' # [Summary False]"
    by (simp add: fetch_fails_def pipeline_main_def run_data_extraction_def
        extraction_steps_def run_script_def check_prerequisites_def required_scripts_def)
  have out: "run_outcome fetch_fails ''fetch_census_economic_data.py'' \<noteq> Exited 0"
    by (simp add: fetch_fails_def)
  from pipeline_halts_at_first_failure [OF tr out]
  have "(\<forall>s'. Summary False \<noteq> Spawn s') \<and> (\<forall>p t. Summary False \<noteq> Validation p t)"
    by simp
  with tr out show ?thesis
    by blast
qed

text \<open>
  C10. The exit status of a full run in which every script exits with 0 and the validation
  passes only 4 of its 5 checks: the status is 0, and the summary reports success.
\<close>

theorem full_run_exit_ignores_validation:
  "pipeline_main html_missing \<lparr>skip_download = False, validate_only = False\<rparr> =
     (0, [Prerequisites True,
          Spawn ''expand_health_indicators.py'', Spawn ''fetch_census_economic_data.py'',
          Spawn ''integrate_economic_data.py'', Spawn ''Baltimore_MetricsWithMap.py'',
          Validation 4 5, Summary True]) \<and>
   fst (run_validation html_missing []) = False \<and>
   fst (pipeline_main html_missing \<lparr>skip_download = False, validate_only = True\<rparr>) = 1"
  by (simp add: html_missing_def pipeline_main_def run_data_extraction_def
      extraction_steps_def run_data_integration_def run_dashboard_generation_def
      run_script_def run_validation_def check_prerequisites_def required_scripts_def)

end
